theory Spec2Isabelle
  imports Main "HOL-Library.Word"
begin

section \<open>Session configuration of the parser (parser.c)\<close>

text \<open>
  The file-level variables of parser.c, together with the one configuration flag it
  assigns that is declared by the scanner, form the state every operation below is
  passed and returns.  C strings are modelled as \<^typ>\<open>string\<close> (the bytes before the
  terminating NUL), so that \<open>strcmp(a, b) == 0\<close> is equality.
\<close>

text \<open>
  Of the enumeration \<open>pg_enc\<close> (pg_wchar.h, not part of the sources) the unit uses two
  members only; they are the constructors here.
\<close>

datatype pg_enc = PG_SQL_ASCII | PG_UTF8

record 't parser_globals =
  parsetree :: "'t list"
  server_version_num :: int
  server_encoding :: pg_enc
  in_parser_context :: bool
  standard_conforming_strings :: bool

text \<open>
  The initialisers of lines 32--36.  \<open>standard_conforming_strings\<close> is defined by the
  scanner, so its initial value is a parameter.
\<close>

definition initial_globals :: "bool \<Rightarrow> 't parser_globals" where
  "initial_globals scs =
     \<lparr>parsetree = [], server_version_num = 0, server_encoding = PG_SQL_ASCII,
      in_parser_context = False, standard_conforming_strings = scs\<rparr>"

subsection \<open>The C library's \<open>sscanf\<close> with the format \<open>%d.%d.%d\<close>\<close>

text \<open>
  \<open>parse_version\<close> reads its argument with \<open>sscanf(versionString, "%d.%d.%d", ...)\<close>.
  The conversion \<open>%d\<close> skips white space, accepts an optional sign and then needs at
  least one decimal digit; the directive \<open>.\<close> matches exactly that character.  The
  call returns the number of conversions made, or \<open>EOF\<close> (-1) when the input ends
  before the first one.  Numbers are unbounded integers here: a digit string beyond
  the range of \<open>int\<close> is outside what C defines.
\<close>

definition isspace :: "char \<Rightarrow> bool" where
  "isspace c = (c = CHR '' '' \<or> (9 \<le> (of_char c :: nat) \<and> (of_char c :: nat) \<le> 13))"

definition isdigit :: "char \<Rightarrow> bool" where
  "isdigit c = (48 \<le> (of_char c :: nat) \<and> (of_char c :: nat) \<le> 57)"

definition digit_val :: "char \<Rightarrow> int" where
  "digit_val c = int (of_char c) - 48"

fun scan_digits :: "int \<Rightarrow> string \<Rightarrow> int \<times> string" where
  "scan_digits acc [] = (acc, [])"
| "scan_digits acc (c # cs) =
     (if isdigit c then scan_digits (10 * acc + digit_val c) cs else (acc, c # cs))"

datatype conversion = Converted int string | MatchingFailure | InputFailure

definition scan_unsigned :: "bool \<Rightarrow> string \<Rightarrow> conversion" where
  "scan_unsigned neg s =
     (case s of
        [] \<Rightarrow> InputFailure
      | c # cs \<Rightarrow>
          if isdigit c
          then (case scan_digits 0 (c # cs) of
                  (n, rest) \<Rightarrow> Converted (if neg then - n else n) rest)
          else MatchingFailure)"

definition scan_d :: "string \<Rightarrow> conversion" where
  "scan_d s =
     (case dropWhile isspace s of
        [] \<Rightarrow> InputFailure
      | c # cs \<Rightarrow>
          if c = CHR ''-'' then scan_unsigned True cs
          else if c = CHR ''+'' then scan_unsigned False cs
          else scan_unsigned False (c # cs))"

definition match_dot :: "string \<Rightarrow> string option" where
  "match_dot s = (case s of [] \<Rightarrow> None | c # cs \<Rightarrow> if c = CHR ''.'' then Some cs else None)"

text \<open>
  The result is the return value of \<open>sscanf\<close> and the values assigned, in order, to
  \<open>vmaj\<close>, \<open>vmin\<close> and \<open>vrev\<close>; a variable without a conversion is not assigned.
\<close>

definition sscanf_d_d_d :: "string \<Rightarrow> int \<times> int list" where
  "sscanf_d_d_d s =
     (case scan_d s of
        InputFailure \<Rightarrow> (- 1, [])
      | MatchingFailure \<Rightarrow> (0, [])
      | Converted vmaj s1 \<Rightarrow>
          (case match_dot s1 of
             None \<Rightarrow> (1, [vmaj])
           | Some s2 \<Rightarrow>
               (case scan_d s2 of
                  Converted vmin s3 \<Rightarrow>
                    (case match_dot s3 of
                       None \<Rightarrow> (2, [vmaj, vmin])
                     | Some s4 \<Rightarrow>
                         (case scan_d s4 of
                            Converted vrev s5 \<Rightarrow> (3, [vmaj, vmin, vrev])
                          | _ \<Rightarrow> (2, [vmaj, vmin])))
                | _ \<Rightarrow> (1, [vmaj]))))"

subsection \<open>\<open>parse_version\<close>, \<open>parser_set_param\<close>, \<open>GetDatabaseEncoding\<close>\<close>

text \<open>
  Lines 197--214.  \<open>vmaj\<close> and \<open>vmin\<close> are read only when two conversions were made,
  \<open>vrev\<close> only when three were.  The arithmetic is that of C as long as it stays
  within \<open>int\<close>.
\<close>

definition parse_version :: "string \<Rightarrow> int" where
  "parse_version versionString =
     (case sscanf_d_d_d versionString of
        (cnt, vals) \<Rightarrow>
          if cnt < 2 then - 1
          else
            (let vmaj = vals ! 0;
                 vmin = vals ! 1;
                 vrev = (if cnt = 2 then 0 else vals ! 2)
             in (100 * vmaj + vmin) * 100 + vrev))"

definition parser_set_param :: "string \<Rightarrow> string \<Rightarrow> 't parser_globals \<Rightarrow> 't parser_globals" where
  "parser_set_param name val g =
     (if name = ''server_version''
      then g\<lparr>server_version_num := parse_version val\<rparr>
      else if name = ''server_encoding''
      then (if val = ''UTF8''
            then g\<lparr>server_encoding := PG_UTF8\<rparr>
            else g\<lparr>server_encoding := PG_SQL_ASCII\<rparr>)
      else if name = ''standard_conforming_strings''
      then (if val = ''on''
            then g\<lparr>standard_conforming_strings := True\<rparr>
            else g\<lparr>standard_conforming_strings := False\<rparr>)
      else g)"

definition GetDatabaseEncoding :: "'t parser_globals \<Rightarrow> pg_enc" where
  "GetDatabaseEncoding g = server_encoding g"

subsection \<open>\<open>pg_mblen\<close>\<close>

text \<open>
  A byte string is the list of the bytes before its terminating NUL; the byte a pointer
  to it refers to is the first of them, or the NUL itself.
\<close>

type_synonym byte = "8 word"

unbundle bit_operations_syntax

definition first_byte :: "byte list \<Rightarrow> byte" where
  "first_byte s = (case s of [] \<Rightarrow> 0 | c # cs \<Rightarrow> c)"

text \<open>
  Modelled from the spec: \<open>pg_utf_mblen\<close> (the encoding library, not part of the
  sources) is the byte-length rule of section 4.1 for UTF-8: 1 for the ASCII range, 2, 3
  and 4 for the standard lead-byte prefixes, and 1 for every other byte.
\<close>

definition pg_utf_mblen :: "byte list \<Rightarrow> int" where
  "pg_utf_mblen s =
     (let c = first_byte s in
      if c AND 0x80 = 0 then 1
      else if c AND 0xE0 = 0xC0 then 2
      else if c AND 0xF0 = 0xE0 then 3
      else if c AND 0xF8 = 0xF0 then 4
      else 1)"

text \<open>
  Lines 245--249.  The function runs in a configuration, passed here as \<open>g\<close>, and its
  body never reads it.
\<close>

definition pg_mblen :: "'t parser_globals \<Rightarrow> byte list \<Rightarrow> int" where
  "pg_mblen g mbstr = pg_utf_mblen mbstr"

section \<open>The lookahead filter \<open>base_yylex\<close>\<close>

text \<open>
  The token codes come from the generated header gram.h, which is not part of the
  sources: an enumeration of distinct integers.  The eight codes the filter names are
  constructors of their own; \<open>OTHER c\<close> is any other code \<open>c\<close>, \<open>OTHER 0\<close> being the end
  of the input.
\<close>

datatype token_kind =
  NULLS_P | FIRST_P | LAST_P | WITH | TIME | NULLS_FIRST | NULLS_LAST | WITH_TIME | OTHER int

text \<open>
  What one call of a lexer hands to its caller: the code it returns and the contents
  of \<open>*lvalp\<close> and \<open>*llocp\<close> when it returns.  The semantic value (\<open>core_YYSTYPE\<close>) is
  opaque, a location (\<open>YYLTYPE\<close>) is an offset.
\<close>

type_synonym YYLTYPE = int

record 'v token =
  kind :: token_kind
  yylval :: 'v
  yylloc :: YYLTYPE

text \<open>An error raised with \<open>ereport\<close>, which leaves the function by a non-local exit.\<close>

datatype elog = ERROR string

text \<open>
  The scanner \<open>core_yylex\<close> (scan.l) is not part of the sources and is a parameter.  It
  is given the contents of \<open>*lvalp\<close> and \<open>*llocp\<close> at the call and its own state \<open>'s\<close>;
  it raises an error, or returns a token code with the new contents of the two cells
  (a cell it does not write keeps its contents) and its new state.
\<close>

type_synonym ('v, 's) core_yylex = "'v \<Rightarrow> YYLTYPE \<Rightarrow> 's \<Rightarrow> elog + ('v token \<times> 's)"

text \<open>
  \<open>base_yy_extra_type\<close> (gramparse.h): the fields parser.c uses.  \<open>core_yy_extra\<close> stands
  for all the state the scanner owns; the field \<open>parsetree\<close> is named \<open>yy_parsetree\<close>
  here, the file-level variable of the same name being a field of the globals.
\<close>

record ('v, 's, 't) base_yy_extra_type =
  core_yy_extra :: 's
  have_lookahead :: bool
  lookahead_token :: token_kind
  lookahead_yylval :: 'v
  lookahead_yylloc :: YYLTYPE
  yy_parsetree :: "'t list"

text \<open>
  Lines 111--194.  The first \<open>case\<close> is the \<open>if\<close> of lines 121--129, which leaves the
  current token in \<open>cur\<close>; the second is the \<open>switch\<close> of lines 132--191.  In the arms
  that merge, the output cells are left as the second call of the scanner wrote them;
  the \<open>default\<close> arms save them in the lookahead fields and restore the current
  token's.
\<close>

definition base_yylex ::
  "('v, 's) core_yylex \<Rightarrow> 'v \<Rightarrow> YYLTYPE \<Rightarrow> ('v, 's, 't) base_yy_extra_type
     \<Rightarrow> elog + ('v token \<times> ('v, 's, 't) base_yy_extra_type)" where
  "base_yylex core_yylex lval lloc yyextra =
     (case (if have_lookahead yyextra
            then Inr (\<lparr>kind = lookahead_token yyextra, yylval = lookahead_yylval yyextra,
                        yylloc = lookahead_yylloc yyextra\<rparr>,
                      yyextra\<lparr>have_lookahead := False\<rparr>)
            else (case core_yylex lval lloc (core_yy_extra yyextra) of
                    Inl e \<Rightarrow> Inl e
                  | Inr (t, s) \<Rightarrow> Inr (t, yyextra\<lparr>core_yy_extra := s\<rparr>)))
      of
        Inl e \<Rightarrow> Inl e
      | Inr (cur, yyextra1) \<Rightarrow>
          (case kind cur of
             NULLS_P \<Rightarrow>
               (case core_yylex (yylval cur) (yylloc cur) (core_yy_extra yyextra1) of
                  Inl e \<Rightarrow> Inl e
                | Inr (nxt, s) \<Rightarrow>
                    (case kind nxt of
                       FIRST_P \<Rightarrow> Inr (nxt\<lparr>kind := NULLS_FIRST\<rparr>, yyextra1\<lparr>core_yy_extra := s\<rparr>)
                     | LAST_P \<Rightarrow> Inr (nxt\<lparr>kind := NULLS_LAST\<rparr>, yyextra1\<lparr>core_yy_extra := s\<rparr>)
                     | _ \<Rightarrow>
                         Inr (cur,
                              yyextra1\<lparr>core_yy_extra := s,
                                       lookahead_token := kind nxt,
                                       lookahead_yylval := yylval nxt,
                                       lookahead_yylloc := yylloc nxt,
                                       have_lookahead := True\<rparr>)))
           | WITH \<Rightarrow>
               (case core_yylex (yylval cur) (yylloc cur) (core_yy_extra yyextra1) of
                  Inl e \<Rightarrow> Inl e
                | Inr (nxt, s) \<Rightarrow>
                    (case kind nxt of
                       TIME \<Rightarrow> Inr (nxt\<lparr>kind := WITH_TIME\<rparr>, yyextra1\<lparr>core_yy_extra := s\<rparr>)
                     | _ \<Rightarrow>
                         Inr (cur,
                              yyextra1\<lparr>core_yy_extra := s,
                                       lookahead_token := kind nxt,
                                       lookahead_yylval := yylval nxt,
                                       lookahead_yylloc := yylloc nxt,
                                       have_lookahead := True\<rparr>)))
           | _ \<Rightarrow> Inr (cur, yyextra1)))"

subsection \<open>Token streams\<close>

text \<open>
  The tokens a consumer gets from \<open>n\<close> successive calls, each call finding in the two
  output cells what the previous one left there: of the scanner itself, and of the
  filter.  An error raised by a call ends the run.
\<close>

fun core_tokens ::
  "('v, 's) core_yylex \<Rightarrow> nat \<Rightarrow> 'v \<Rightarrow> YYLTYPE \<Rightarrow> 's \<Rightarrow> elog + ('v token list \<times> 's)" where
  "core_tokens core_yylex 0 lval lloc s = Inr ([], s)"
| "core_tokens core_yylex (Suc n) lval lloc s =
     (case core_yylex lval lloc s of
        Inl e \<Rightarrow> Inl e
      | Inr (t, s1) \<Rightarrow>
          (case core_tokens core_yylex n (yylval t) (yylloc t) s1 of
             Inl e \<Rightarrow> Inl e
           | Inr (ts, s2) \<Rightarrow> Inr (t # ts, s2)))"

fun base_tokens ::
  "('v, 's) core_yylex \<Rightarrow> nat \<Rightarrow> 'v \<Rightarrow> YYLTYPE \<Rightarrow> ('v, 's, 't) base_yy_extra_type
     \<Rightarrow> elog + ('v token list \<times> ('v, 's, 't) base_yy_extra_type)" where
  "base_tokens core_yylex 0 lval lloc yyextra = Inr ([], yyextra)"
| "base_tokens core_yylex (Suc n) lval lloc yyextra =
     (case base_yylex core_yylex lval lloc yyextra of
        Inl e \<Rightarrow> Inl e
      | Inr (t, yyextra1) \<Rightarrow>
          (case base_tokens core_yylex n (yylval t) (yylloc t) yyextra1 of
             Inl e \<Rightarrow> Inl e
           | Inr (ts, yyextra2) \<Rightarrow> Inr (t # ts, yyextra2)))"

text \<open>
  The merge table of the specification, section 4.3: lead, probe, composite.
\<close>

definition merge_table :: "(token_kind \<times> token_kind \<times> token_kind) list" where
  "merge_table =
     [(NULLS_P, FIRST_P, NULLS_FIRST), (NULLS_P, LAST_P, NULLS_LAST), (WITH, TIME, WITH_TIME)]"

definition is_lead :: "token_kind \<Rightarrow> bool" where
  "is_lead k = (k = NULLS_P \<or> k = WITH)"

text \<open>
  A scanner for concrete runs: it hands out the tokens of a prepared list in order and,
  once the list is used up, the end-of-input code, writing neither output cell.
\<close>

fun list_yylex :: "('v, 'v token list) core_yylex" where
  "list_yylex lval lloc [] = Inr (\<lparr>kind = OTHER 0, yylval = lval, yylloc = lloc\<rparr>, [])"
| "list_yylex lval lloc (t # ts) = Inr (t, ts)"

section \<open>The parse driver \<open>raw_parser\<close>\<close>

text \<open>
  \<open>scanner_init\<close>, \<open>parser_init\<close> and the grammar engine \<open>base_yyparse\<close> are not part
  of the sources and are parameters.  The engine is run on the initialised
  \<open>yyextra\<close> and the globals; it either raises an error, or returns its result code
  with the \<open>yyextra\<close> it leaves, and in both cases the globals as it leaves them.
  \<open>yyextra0\<close> is the local variable \<open>yyextra\<close> as allocated, before any field is set.
  The result is the list returned and the globals at the return.
\<close>

type_synonym ('v, 's, 't) base_yyparse =
  "('v, 's, 't) base_yy_extra_type \<Rightarrow> 't parser_globals
     \<Rightarrow> (elog \<times> 't parser_globals) + (int \<times> ('v, 's, 't) base_yy_extra_type \<times> 't parser_globals)"

definition raw_parser ::
  "(string \<Rightarrow> 's) \<Rightarrow> (('v, 's, 't) base_yy_extra_type \<Rightarrow> ('v, 's, 't) base_yy_extra_type)
     \<Rightarrow> ('v, 's, 't) base_yyparse \<Rightarrow> ('v, 's, 't) base_yy_extra_type
     \<Rightarrow> string \<Rightarrow> 't parser_globals \<Rightarrow> 't list \<times> 't parser_globals" where
  "raw_parser scanner_init parser_init base_yyparse yyextra0 str g =
     (let g1 = g\<lparr>parsetree := []\<rparr>;
          yyextra1 = yyextra0\<lparr>core_yy_extra := scanner_init str\<rparr>;
          yyextra2 = yyextra1\<lparr>have_lookahead := False\<rparr>;
          yyextra3 = parser_init yyextra2;
          g2 = g1\<lparr>in_parser_context := True\<rparr>
      in case base_yyparse yyextra3 g2 of
           Inr (yyresult, yyextra4, g3) \<Rightarrow>
             if yyresult \<noteq> 0 then ([], g3\<lparr>in_parser_context := False\<rparr>)
             else (yy_parsetree yyextra4, g3\<lparr>in_parser_context := False\<rparr>)
         | Inl (e, g3) \<Rightarrow> ([], g3\<lparr>in_parser_context := False\<rparr>))"

section \<open>Concrete inputs\<close>

text \<open>
  Shorthand for the runs on concrete inputs: a token with a string as its semantic
  value, and the filter state at the start of a parse over a prepared token list, with
  the lookahead fields not yet written by the filter.
\<close>

abbreviation tok :: "token_kind \<Rightarrow> string \<Rightarrow> YYLTYPE \<Rightarrow> string token" where
  "tok k v l \<equiv> \<lparr>kind = k, yylval = v, yylloc = l\<rparr>"

abbreviation fresh_extra ::
  "string token list \<Rightarrow> (string, string token list, unit) base_yy_extra_type" where
  "fresh_extra ts \<equiv>
     \<lparr>core_yy_extra = ts, have_lookahead = False, lookahead_token = OTHER 0,
      lookahead_yylval = [], lookahead_yylloc = 0, yy_parsetree = []\<rparr>"

section \<open>Properties of the session configuration\<close>

lemma sscanf_d_d_d_count: "sscanf_d_d_d s = (cnt, vals) \<Longrightarrow> 0 \<le> cnt \<Longrightarrow> int (length vals) = cnt"
  by (auto simp: sscanf_d_d_d_def split: conversion.splits option.splits)

lemma parse_version_9_1_3: "parse_version ''9.1.3'' = 90103"
  by (simp add: parse_version_def sscanf_d_d_d_def scan_d_def scan_unsigned_def match_dot_def
      isspace_def isdigit_def digit_val_def)

lemma parse_version_9_1: "parse_version ''9.1'' = 90100"
  by (simp add: parse_version_def sscanf_d_d_d_def scan_d_def scan_unsigned_def match_dot_def
      isspace_def isdigit_def digit_val_def)

lemma parse_version_bogus: "parse_version ''bogus'' = - 1"
  by (simp add: parse_version_def sscanf_d_d_d_def scan_d_def scan_unsigned_def match_dot_def
      isspace_def isdigit_def digit_val_def)

lemma pg_utf_mblen_C2: "pg_utf_mblen [0xC2] = 2"
  by (simp add: pg_utf_mblen_def first_byte_def)

lemma pg_utf_mblen_41: "pg_utf_mblen [0x41] = 1"
  by (simp add: pg_utf_mblen_def first_byte_def)

text \<open>
  Claim C7, as the code has it.  In the configuration reached by
  \<open>parser_set_param("server_encoding", "UTF8")\<close> the length of a character led by 0xC2
  is 2, and the length of one led by 0x41 is 1 in every configuration.  In the initial
  configuration, whose encoding is \<open>PG_SQL_ASCII\<close>, the length for 0xC2 is 2 as well:
  \<open>pg_mblen\<close> applies the UTF-8 rule whatever the configured encoding is, so its
  result is the same in any two configurations.
\<close>

theorem pg_mblen_ignores_encoding:
  "GetDatabaseEncoding (parser_set_param ''server_encoding'' ''UTF8'' g) = PG_UTF8
   \<and> pg_mblen (parser_set_param ''server_encoding'' ''UTF8'' g) [0xC2] = 2
   \<and> pg_mblen g [0x41] = 1
   \<and> GetDatabaseEncoding (initial_globals scs :: 't parser_globals) = PG_SQL_ASCII
   \<and> pg_mblen (initial_globals scs :: 't parser_globals) [0xC2] = 2
   \<and> pg_mblen g mbstr = pg_mblen g' mbstr"
  by (simp add: pg_mblen_def pg_utf_mblen_C2 pg_utf_mblen_41 GetDatabaseEncoding_def
      parser_set_param_def initial_globals_def)

text \<open>
  The claim as the specification words it fails: with the encoding left at its default
  the length reported for 0xC2 is not 1.
\<close>

theorem pg_mblen_default_encoding_C2_counterexample:
  "GetDatabaseEncoding (initial_globals True :: unit parser_globals) = PG_SQL_ASCII
   \<and> pg_mblen (initial_globals True :: unit parser_globals) [0xC2] \<noteq> 1"
  by (simp add: pg_mblen_def pg_utf_mblen_C2 GetDatabaseEncoding_def initial_globals_def)

text \<open>
  Claim C8, as the code has it.  \<open>parser_set_param("server_version", "9.1.3")\<close> stores
  \<open>(100 * 9 + 1) * 100 + 3\<close>, which is 90103; the value \<open>"9.1"\<close> stores 90100, the
  revision being taken as 0; the value \<open>"bogus"\<close> stores the sentinel -1.
\<close>

theorem server_version_examples:
  "server_version_num (parser_set_param ''server_version'' ''9.1.3'' g) = (100 * 9 + 1) * 100 + 3
   \<and> server_version_num (parser_set_param ''server_version'' ''9.1.3'' g) = 90103
   \<and> server_version_num (parser_set_param ''server_version'' ''9.1'' g) = 90100
   \<and> server_version_num (parser_set_param ''server_version'' ''bogus'' g) = - 1"
  by (simp add: parser_set_param_def parse_version_9_1_3 parse_version_9_1 parse_version_bogus)

text \<open>The value the specification gives for \<open>"9.1.3"\<close>, 91003, is not the one stored.\<close>

theorem server_version_9_1_3_counterexample:
  "server_version_num
     (parser_set_param ''server_version'' ''9.1.3'' (initial_globals True :: unit parser_globals))
   \<noteq> 91003"
  by (simp add: parser_set_param_def parse_version_9_1_3)

text \<open>
  Claim C9.  \<open>parser_set_param\<close> acts on the names \<open>server_version\<close>,
  \<open>server_encoding\<close> and \<open>standard_conforming_strings\<close> and on no other: the first
  stores the parsed version; for the second the value \<open>UTF8\<close>, compared byte for byte,
  selects \<open>PG_UTF8\<close> and every other value \<open>PG_SQL_ASCII\<close>; for the third the value
  \<open>on\<close> gives true and every other value false; each leaves the other variables as
  they were, and a call with any other name returns the state unchanged.
\<close>

theorem parser_set_param_names:
  "parser_set_param ''server_version'' val g = g\<lparr>server_version_num := parse_version val\<rparr>
   \<and> parser_set_param ''server_encoding'' val g =
         g\<lparr>server_encoding := (if val = ''UTF8'' then PG_UTF8 else PG_SQL_ASCII)\<rparr>
   \<and> parser_set_param ''standard_conforming_strings'' val g =
         g\<lparr>standard_conforming_strings := (val = ''on'')\<rparr>
   \<and> (name \<notin> {''server_version'', ''server_encoding'', ''standard_conforming_strings''}
        \<longrightarrow> parser_set_param name val g = g)"
  by (simp add: parser_set_param_def)

theorem parser_set_param_names_witness:
  "''client_encoding'' \<notin> {''server_version'', ''server_encoding'', ''standard_conforming_strings''}
   \<and> parser_set_param ''client_encoding'' ''UTF8'' (initial_globals False :: unit parser_globals)
       = initial_globals False
   \<and> server_encoding
         (parser_set_param ''server_encoding'' ''UTF8'' (initial_globals False :: unit parser_globals))
       = PG_UTF8
   \<and> server_encoding
         (parser_set_param ''server_encoding'' ''utf8''
            (parser_set_param ''server_encoding'' ''UTF8'' (initial_globals False :: unit parser_globals)))
       = PG_SQL_ASCII
   \<and> standard_conforming_strings
         (parser_set_param ''standard_conforming_strings'' ''on'' (initial_globals False :: unit parser_globals))
   \<and> \<not> standard_conforming_strings
         (parser_set_param ''standard_conforming_strings'' ''ON'' (initial_globals True :: unit parser_globals))"
  using parser_set_param_names [of "''UTF8''" "initial_globals False :: unit parser_globals" "''client_encoding''"]
    parser_set_param_names [of "''utf8''"
      "parser_set_param ''server_encoding'' ''UTF8'' (initial_globals False :: unit parser_globals)"
      "''client_encoding''"]
    parser_set_param_names [of "''on''" "initial_globals False :: unit parser_globals" "''client_encoding''"]
    parser_set_param_names [of "''ON''" "initial_globals True :: unit parser_globals" "''client_encoding''"]
  by (simp add: initial_globals_def)

text \<open>
  Claim C10.  Before any call of \<open>parser_set_param\<close> the encoding reported by
  \<open>GetDatabaseEncoding\<close> is \<open>PG_SQL_ASCII\<close> and the stored version number is 0.  A
  version string from which fewer than two numbers can be read stores -1, so the state
  it leaves differs from the initial one in the version number.
\<close>

theorem initial_configuration:
  "GetDatabaseEncoding (initial_globals scs :: 't parser_globals) = PG_SQL_ASCII
   \<and> server_version_num (initial_globals scs :: 't parser_globals) = 0
   \<and> (fst (sscanf_d_d_d v) < 2 \<longrightarrow>
        server_version_num
          (parser_set_param ''server_version'' v (initial_globals scs :: 't parser_globals)) = - 1
        \<and> server_version_num
            (parser_set_param ''server_version'' v (initial_globals scs :: 't parser_globals))
          \<noteq> server_version_num (initial_globals scs :: 't parser_globals))"
  by (simp add: GetDatabaseEncoding_def initial_globals_def parser_set_param_def
      parse_version_def split: prod.splits)

theorem initial_configuration_witness:
  "fst (sscanf_d_d_d ''bogus'') < 2
   \<and> GetDatabaseEncoding (initial_globals True :: unit parser_globals) = PG_SQL_ASCII
   \<and> server_version_num (initial_globals True :: unit parser_globals) = 0
   \<and> server_version_num
         (parser_set_param ''server_version'' ''bogus'' (initial_globals True :: unit parser_globals))
       = - 1"
proof -
  have h: "fst (sscanf_d_d_d ''bogus'') < 2"
    by (simp add: sscanf_d_d_d_def scan_d_def scan_unsigned_def isspace_def isdigit_def)
  show ?thesis
    using h initial_configuration [of True "''bogus''", where ?'t = unit] by simp
qed

section \<open>Properties of the lookahead filter\<close>

text \<open>
  Claim C1.  For every row (lead, probe, composite) of the merge table -- \<open>NULLS\<close> then
  \<open>FIRST\<close>, \<open>NULLS\<close> then \<open>LAST\<close>, \<open>WITH\<close> then \<open>TIME\<close> -- a call of \<open>base_yylex\<close> with no
  token buffered, on a scanner that delivers the lead and then the probe, returns one
  token, of the composite kind; the scanner is left in the state after exactly those two
  calls, and no token is buffered.
\<close>

theorem merge_emits_composite:
  assumes "\<not> have_lookahead yyextra"
    and "core_yylex lval lloc (core_yy_extra yyextra) = Inr (lead, s1)"
    and "core_yylex (yylval lead) (yylloc lead) s1 = Inr (probe, s2)"
    and "(kind lead, kind probe, composite) \<in> set merge_table"
  shows "\<exists>t yyextra'. base_yylex core_yylex lval lloc yyextra = Inr (t, yyextra')
           \<and> kind t = composite
           \<and> core_yy_extra yyextra' = s2
           \<and> \<not> have_lookahead yyextra'"
  using assms by (auto simp: base_yylex_def merge_table_def)

theorem merge_emits_composite_witness:
  "(NULLS_P, FIRST_P, NULLS_FIRST) \<in> set merge_table
   \<and> (\<exists>t yyextra'.
         base_yylex list_yylex [] 0
           (fresh_extra [tok NULLS_P ''nulls'' 10, tok FIRST_P ''first'' 16, tok (OTHER 44) [] 21])
           = Inr (t, yyextra')
         \<and> kind t = NULLS_FIRST
         \<and> core_yy_extra yyextra' = [tok (OTHER 44) [] 21]
         \<and> \<not> have_lookahead yyextra')
   \<and> (WITH, TIME, WITH_TIME) \<in> set merge_table
   \<and> (\<exists>t yyextra'.
         base_yylex list_yylex [] 0
           (fresh_extra [tok WITH ''with'' 3, tok TIME ''time'' 8, tok (OTHER 300) ''zone'' 13])
           = Inr (t, yyextra')
         \<and> kind t = WITH_TIME
         \<and> core_yy_extra yyextra' = [tok (OTHER 300) ''zone'' 13]
         \<and> \<not> have_lookahead yyextra')"
  using merge_emits_composite [where
      yyextra = "fresh_extra [tok NULLS_P ''nulls'' 10, tok FIRST_P ''first'' 16, tok (OTHER 44) [] 21]"
      and core_yylex = list_yylex and lval = "[]" and lloc = 0
      and lead = "tok NULLS_P ''nulls'' 10"
      and ?s1.0 = "[tok FIRST_P ''first'' 16, tok (OTHER 44) [] 21]"
      and probe = "tok FIRST_P ''first'' 16"
      and ?s2.0 = "[tok (OTHER 44) [] 21]"
      and composite = NULLS_FIRST]
    merge_emits_composite [where
      yyextra = "fresh_extra [tok WITH ''with'' 3, tok TIME ''time'' 8, tok (OTHER 300) ''zone'' 13]"
      and core_yylex = list_yylex and lval = "[]" and lloc = 0
      and lead = "tok WITH ''with'' 3"
      and ?s1.0 = "[tok TIME ''time'' 8, tok (OTHER 300) ''zone'' 13]"
      and probe = "tok TIME ''time'' 8"
      and ?s2.0 = "[tok (OTHER 300) ''zone'' 13]"
      and composite = WITH_TIME]
  by (simp add: merge_table_def)

text \<open>
  Claim C2, as the code has it.  Let the current token of a call, read from the scanner
  or taken from the buffer, be a lead token (\<open>NULLS\<close> or \<open>WITH\<close>) and let the probe read
  after it match no row of the merge table.  The call returns the lead token with its
  own value and location and leaves the probe in the buffer.  If the probe is not a
  lead token itself, the next call returns the probe with its value and location and
  empties the buffer without moving the scanner, so the stream delivered is the lead,
  the probe, and then what the filter delivers from the scanner state after the probe.
\<close>

theorem mismatch_emits_lead_then_probe:
  assumes "(have_lookahead yyextra
              \<and> lead = \<lparr>kind = lookahead_token yyextra, yylval = lookahead_yylval yyextra,
                         yylloc = lookahead_yylloc yyextra\<rparr>
              \<and> s1 = core_yy_extra yyextra)
           \<or> (\<not> have_lookahead yyextra
              \<and> core_yylex lval lloc (core_yy_extra yyextra) = Inr (lead, s1))"
    and "is_lead (kind lead)"
    and "core_yylex (yylval lead) (yylloc lead) s1 = Inr (probe, s2)"
    and "\<forall>c. (kind lead, kind probe, c) \<notin> set merge_table"
    and "yyextra1 = yyextra\<lparr>core_yy_extra := s2, lookahead_token := kind probe,
           lookahead_yylval := yylval probe, lookahead_yylloc := yylloc probe,
           have_lookahead := True\<rparr>"
  shows "base_yylex core_yylex lval lloc yyextra = Inr (lead, yyextra1)
         \<and> (\<not> is_lead (kind probe) \<longrightarrow>
              base_yylex core_yylex lval' lloc' yyextra1
                = Inr (probe, yyextra1\<lparr>have_lookahead := False\<rparr>)
              \<and> base_tokens core_yylex (Suc (Suc n)) lval lloc yyextra
                = (case base_tokens core_yylex n (yylval probe) (yylloc probe)
                          (yyextra1\<lparr>have_lookahead := False\<rparr>) of
                     Inl e \<Rightarrow> Inl e
                   | Inr (ts, yyextra2) \<Rightarrow> Inr (lead # probe # ts, yyextra2)))"
proof -
  have probe_eq: "\<lparr>kind = kind probe, yylval = yylval probe, yylloc = yylloc probe\<rparr> = probe"
    by simp
  have first: "base_yylex core_yylex lval lloc yyextra = Inr (lead, yyextra1)"
    using assms
    by (cases "kind lead"; cases "kind probe")
       (auto simp: base_yylex_def is_lead_def merge_table_def)
  have second: "base_yylex core_yylex lv ll yyextra1 = Inr (probe, yyextra1\<lparr>have_lookahead := False\<rparr>)"
    if "\<not> is_lead (kind probe)" for lv ll
    using that assms(5) probe_eq
    by (cases "kind probe") (simp_all add: base_yylex_def is_lead_def)
  have stream: "base_tokens core_yylex (Suc (Suc n)) lval lloc yyextra
                = (case base_tokens core_yylex n (yylval probe) (yylloc probe)
                          (yyextra1\<lparr>have_lookahead := False\<rparr>) of
                     Inl e \<Rightarrow> Inl e
                   | Inr (ts, yyextra2) \<Rightarrow> Inr (lead # probe # ts, yyextra2))"
    if "\<not> is_lead (kind probe)"
    using first second [OF that, of "yylval lead" "yylloc lead"]
    by (simp split: sum.splits)
  from first second stream show ?thesis by blast
qed

theorem mismatch_emits_lead_then_probe_witness:
  "is_lead WITH
   \<and> (\<forall>c. (WITH, OTHER 258, c) \<notin> set merge_table)
   \<and> \<not> is_lead (OTHER 258)
   \<and> base_yylex list_yylex [] 0
        (fresh_extra [tok WITH ''with'' 0, tok (OTHER 258) ''x'' 5, tok (OTHER 59) [] 6])
       = Inr (tok WITH ''with'' 0,
              \<lparr>core_yy_extra = [tok (OTHER 59) [] 6], have_lookahead = True,
               lookahead_token = OTHER 258, lookahead_yylval = ''x'', lookahead_yylloc = 5,
               yy_parsetree = []\<rparr>)
   \<and> base_yylex list_yylex ''with'' 0
        \<lparr>core_yy_extra = [tok (OTHER 59) [] 6], have_lookahead = True,
         lookahead_token = OTHER 258, lookahead_yylval = ''x'', lookahead_yylloc = 5,
         yy_parsetree = []\<rparr>
       = Inr (tok (OTHER 258) ''x'' 5,
              \<lparr>core_yy_extra = [tok (OTHER 59) [] 6], have_lookahead = False,
               lookahead_token = OTHER 258, lookahead_yylval = ''x'', lookahead_yylloc = 5,
               yy_parsetree = ([] :: unit list)\<rparr>)
   \<and> base_tokens list_yylex (Suc (Suc (Suc 0))) [] 0
        (fresh_extra [tok WITH ''with'' 0, tok (OTHER 258) ''x'' 5, tok (OTHER 59) [] 6])
       = Inr ([tok WITH ''with'' 0, tok (OTHER 258) ''x'' 5, tok (OTHER 59) [] 6],
              \<lparr>core_yy_extra = [], have_lookahead = False,
               lookahead_token = OTHER 258, lookahead_yylval = ''x'', lookahead_yylloc = 5,
               yy_parsetree = ([] :: unit list)\<rparr>)"
  using mismatch_emits_lead_then_probe [where
      yyextra = "fresh_extra [tok WITH ''with'' 0, tok (OTHER 258) ''x'' 5, tok (OTHER 59) [] 6]"
      and core_yylex = list_yylex and lval = "[]" and lloc = 0
      and lead = "tok WITH ''with'' 0"
      and ?s1.0 = "[tok (OTHER 258) ''x'' 5, tok (OTHER 59) [] 6]"
      and probe = "tok (OTHER 258) ''x'' 5"
      and ?s2.0 = "[tok (OTHER 59) [] 6]"
      and ?yyextra1.0 = "\<lparr>core_yy_extra = [tok (OTHER 59) [] 6], have_lookahead = True,
               lookahead_token = OTHER 258, lookahead_yylval = ''x'', lookahead_yylloc = 5,
               yy_parsetree = []\<rparr>"
      and lval' = "''with''" and lloc' = 0 and n = "Suc 0"]
  by (simp add: is_lead_def merge_table_def base_yylex_def)

text \<open>
  The claim as the specification words it fails when the probe is a lead token itself.
  On the raw stream \<open>WITH NULLS FIRST\<close> the first call returns \<open>WITH\<close> and buffers
  \<open>NULLS\<close>; the next call does not return the probed \<open>NULLS\<close> token but looks ahead from
  it and returns \<open>NULLS_FIRST\<close>.
\<close>

theorem probe_is_lead_counterexample:
  "base_yylex list_yylex [] 0
        (fresh_extra [tok WITH ''with'' 0, tok NULLS_P ''nulls'' 5, tok FIRST_P ''first'' 11])
       = Inr (tok WITH ''with'' 0,
              \<lparr>core_yy_extra = [tok FIRST_P ''first'' 11], have_lookahead = True,
               lookahead_token = NULLS_P, lookahead_yylval = ''nulls'', lookahead_yylloc = 5,
               yy_parsetree = []\<rparr>)
   \<and> base_yylex list_yylex ''with'' 0
        \<lparr>core_yy_extra = [tok FIRST_P ''first'' 11], have_lookahead = True,
         lookahead_token = NULLS_P, lookahead_yylval = ''nulls'', lookahead_yylloc = 5,
         yy_parsetree = []\<rparr>
       = Inr (tok NULLS_FIRST ''first'' 11,
              \<lparr>core_yy_extra = [], have_lookahead = False,
               lookahead_token = NULLS_P, lookahead_yylval = ''nulls'', lookahead_yylloc = 5,
               yy_parsetree = ([] :: unit list)\<rparr>)
   \<and> tok NULLS_FIRST ''first'' 11 \<noteq> tok NULLS_P ''nulls'' 5"
  by (simp add: base_yylex_def)

text \<open>
  Claim C3.  Started with no token buffered, on a scanner whose next \<open>n\<close> tokens include
  no lead token (\<open>NULLS\<close> or \<open>WITH\<close>), \<open>n\<close> calls of the filter deliver those very
  tokens -- kinds, values and locations, in order -- and leave the scanner where \<open>n\<close>
  direct calls leave it, the filter's own fields untouched.
\<close>

theorem filter_transparent:
  assumes "core_tokens core_yylex n lval lloc (core_yy_extra yyextra) = Inr (ts, s)"
    and "\<forall>t \<in> set ts. \<not> is_lead (kind t)"
    and "\<not> have_lookahead yyextra"
  shows "base_tokens core_yylex n lval lloc yyextra = Inr (ts, yyextra\<lparr>core_yy_extra := s\<rparr>)"
  using assms
proof (induction n arbitrary: lval lloc yyextra ts)
  case 0
  then show ?case by simp
next
  case (Suc n)
  from Suc.prems(1) obtain t s1 ts' where
    t: "core_yylex lval lloc (core_yy_extra yyextra) = Inr (t, s1)"
    and rest: "core_tokens core_yylex n (yylval t) (yylloc t) s1 = Inr (ts', s)"
    and ts: "ts = t # ts'"
    by (auto split: sum.splits)
  from Suc.prems(2) ts have nl: "\<not> is_lead (kind t)"
    and nls: "\<forall>t \<in> set ts'. \<not> is_lead (kind t)"
    by simp_all
  have step: "base_yylex core_yylex lval lloc yyextra = Inr (t, yyextra\<lparr>core_yy_extra := s1\<rparr>)"
    using Suc.prems(3) t nl by (cases "kind t") (simp_all add: base_yylex_def is_lead_def)
  have "base_tokens core_yylex n (yylval t) (yylloc t) (yyextra\<lparr>core_yy_extra := s1\<rparr>)
          = Inr (ts', yyextra\<lparr>core_yy_extra := s1\<rparr>\<lparr>core_yy_extra := s\<rparr>)"
    using Suc.IH [of "yylval t" "yylloc t" "yyextra\<lparr>core_yy_extra := s1\<rparr>" ts'] rest nls Suc.prems(3)
    by simp
  with step ts show ?case by simp
qed

theorem filter_transparent_witness:
  "core_tokens list_yylex 4 [] 0
       [tok (OTHER 300) ''select'' 0, tok (OTHER 42) [] 7, tok (OTHER 59) [] 8]
     = Inr ([tok (OTHER 300) ''select'' 0, tok (OTHER 42) [] 7, tok (OTHER 59) [] 8,
             tok (OTHER 0) [] 8], [])
   \<and> \<not> is_lead (OTHER 300) \<and> \<not> is_lead (OTHER 42) \<and> \<not> is_lead (OTHER 59) \<and> \<not> is_lead (OTHER 0)
   \<and> base_tokens list_yylex 4 [] 0
        (fresh_extra [tok (OTHER 300) ''select'' 0, tok (OTHER 42) [] 7, tok (OTHER 59) [] 8])
     = Inr ([tok (OTHER 300) ''select'' 0, tok (OTHER 42) [] 7, tok (OTHER 59) [] 8,
             tok (OTHER 0) [] 8], fresh_extra [])"
proof -
  have raw: "core_tokens list_yylex 4 [] 0
       [tok (OTHER 300) ''select'' 0, tok (OTHER 42) [] 7, tok (OTHER 59) [] 8]
     = Inr ([tok (OTHER 300) ''select'' 0, tok (OTHER 42) [] 7, tok (OTHER 59) [] 8,
             tok (OTHER 0) [] 8], [])"
    by (simp add: eval_nat_numeral)
  have nl: "\<not> is_lead (OTHER 300) \<and> \<not> is_lead (OTHER 42) \<and> \<not> is_lead (OTHER 59) \<and> \<not> is_lead (OTHER 0)"
    by (simp add: is_lead_def)
  have "base_tokens list_yylex 4 [] 0
        (fresh_extra [tok (OTHER 300) ''select'' 0, tok (OTHER 42) [] 7, tok (OTHER 59) [] 8])
     = Inr ([tok (OTHER 300) ''select'' 0, tok (OTHER 42) [] 7, tok (OTHER 59) [] 8,
             tok (OTHER 0) [] 8],
            (fresh_extra [tok (OTHER 300) ''select'' 0, tok (OTHER 42) [] 7, tok (OTHER 59) [] 8])
              \<lparr>core_yy_extra := []\<rparr>)"
    using raw nl by (intro filter_transparent) simp_all
  with raw nl show ?thesis by simp
qed

text \<open>
  Claim C4, as the code has it.  Whenever the current token of a call, read from the
  scanner or taken from the buffer, is a lead token and the probe read after it matches
  a row of the merge table, the call returns the composite kind together with the value
  and the location that the probing call of the scanner left in the output cells: those
  of the probe.  The lead token's value and location are not restored, and no token is
  buffered after the call.
\<close>

theorem merge_keeps_probe_cells:
  assumes "(have_lookahead yyextra
              \<and> lead = \<lparr>kind = lookahead_token yyextra, yylval = lookahead_yylval yyextra,
                         yylloc = lookahead_yylloc yyextra\<rparr>
              \<and> s1 = core_yy_extra yyextra)
           \<or> (\<not> have_lookahead yyextra
              \<and> core_yylex lval lloc (core_yy_extra yyextra) = Inr (lead, s1))"
    and "core_yylex (yylval lead) (yylloc lead) s1 = Inr (probe, s2)"
    and "(kind lead, kind probe, composite) \<in> set merge_table"
  shows "base_yylex core_yylex lval lloc yyextra
           = Inr (\<lparr>kind = composite, yylval = yylval probe, yylloc = yylloc probe\<rparr>,
                  yyextra\<lparr>core_yy_extra := s2, have_lookahead := False\<rparr>)"
  using assms by (auto simp: base_yylex_def merge_table_def)

theorem merge_keeps_probe_cells_witness:
  "(NULLS_P, LAST_P, NULLS_LAST) \<in> set merge_table
   \<and> list_yylex [] 0 [tok NULLS_P ''nulls'' 20, tok LAST_P ''last'' 26]
       = Inr (tok NULLS_P ''nulls'' 20, [tok LAST_P ''last'' 26])
   \<and> list_yylex ''nulls'' 20 [tok LAST_P ''last'' 26] = Inr (tok LAST_P ''last'' 26, [])
   \<and> base_yylex list_yylex [] 0 (fresh_extra [tok NULLS_P ''nulls'' 20, tok LAST_P ''last'' 26])
       = Inr (tok NULLS_LAST ''last'' 26, fresh_extra [])"
  using merge_keeps_probe_cells [where
      yyextra = "fresh_extra [tok NULLS_P ''nulls'' 20, tok LAST_P ''last'' 26]"
      and core_yylex = list_yylex and lval = "[]" and lloc = 0
      and lead = "tok NULLS_P ''nulls'' 20"
      and ?s1.0 = "[tok LAST_P ''last'' 26]"
      and probe = "tok LAST_P ''last'' 26"
      and ?s2.0 = "[]"
      and composite = NULLS_LAST]
  by (simp add: merge_table_def)

text \<open>
  The claim as the specification words it fails: for \<open>NULLS\<close> at offset 10 followed by
  \<open>FIRST\<close> at offset 16 the composite token is returned with the value and the location
  of the probe, not with the location of the lead token.
\<close>

theorem composite_location_counterexample:
  "base_yylex list_yylex [] 0
       (fresh_extra [tok NULLS_P ''nulls'' 10, tok FIRST_P ''first'' 16])
     = Inr (tok NULLS_FIRST ''first'' 16, fresh_extra [])
   \<and> yylloc (tok NULLS_FIRST ''first'' 16) \<noteq> yylloc (tok NULLS_P ''nulls'' 10)
   \<and> yylloc (tok NULLS_FIRST ''first'' 16) = yylloc (tok FIRST_P ''first'' 16)
   \<and> yylval (tok NULLS_FIRST ''first'' 16) = yylval (tok FIRST_P ''first'' 16)"
  by (simp add: base_yylex_def)

text \<open>
  Claim C5, as the code has it.  For every call made while a token is buffered whose
  kind is not a lead token (\<open>NULLS\<close> or \<open>WITH\<close>), the call returns that token with its
  saved value and location and clears the buffer; nothing else of the state changes,
  the scanner's state included, whatever the scanner is.
\<close>

theorem buffered_token_returned:
  assumes "have_lookahead yyextra"
    and "\<not> is_lead (lookahead_token yyextra)"
  shows "base_yylex core_yylex lval lloc yyextra
           = Inr (\<lparr>kind = lookahead_token yyextra, yylval = lookahead_yylval yyextra,
                    yylloc = lookahead_yylloc yyextra\<rparr>,
                  yyextra\<lparr>have_lookahead := False\<rparr>)"
  using assms by (cases "lookahead_token yyextra") (simp_all add: base_yylex_def is_lead_def)

theorem buffered_token_returned_witness:
  "\<not> is_lead (OTHER 260)
   \<and> base_yylex (\<lambda>lval lloc s. Inl (ERROR ''unterminated quoted string'')) ''nulls'' 0
        \<lparr>core_yy_extra = ''rest of the input'', have_lookahead = True,
         lookahead_token = OTHER 260, lookahead_yylval = ''abc'', lookahead_yylloc = 6,
         yy_parsetree = []\<rparr>
       = Inr (tok (OTHER 260) ''abc'' 6,
              \<lparr>core_yy_extra = ''rest of the input'', have_lookahead = False,
               lookahead_token = OTHER 260, lookahead_yylval = ''abc'', lookahead_yylloc = 6,
               yy_parsetree = ([] :: unit list)\<rparr>)"
  using buffered_token_returned [where
      yyextra = "\<lparr>core_yy_extra = ''rest of the input'', have_lookahead = True,
         lookahead_token = OTHER 260, lookahead_yylval = ''abc'', lookahead_yylloc = 6,
         yy_parsetree = ([] :: unit list)\<rparr>"
      and core_yylex = "\<lambda>lval lloc s. Inl (ERROR ''unterminated quoted string'')"
      and lval = "''nulls''" and lloc = 0]
  by (simp add: is_lead_def)

text \<open>
  The claim as the specification words it fails when the buffered token is a lead token.
  On the raw stream \<open>NULLS WITH x ;\<close> the first call buffers \<open>WITH\<close>.  The second call
  reads the scanner again, although a token is buffered: it returns \<open>WITH\<close>, and the
  buffer is not empty afterwards but holds \<open>x\<close>.
\<close>

theorem buffered_lead_counterexample:
  "base_yylex list_yylex [] 0
       (fresh_extra [tok NULLS_P ''nulls'' 0, tok WITH ''with'' 6, tok (OTHER 258) ''x'' 11,
                     tok (OTHER 59) [] 12])
     = Inr (tok NULLS_P ''nulls'' 0,
            \<lparr>core_yy_extra = [tok (OTHER 258) ''x'' 11, tok (OTHER 59) [] 12],
             have_lookahead = True,
             lookahead_token = WITH, lookahead_yylval = ''with'', lookahead_yylloc = 6,
             yy_parsetree = []\<rparr>)
   \<and> base_yylex list_yylex ''nulls'' 0
       \<lparr>core_yy_extra = [tok (OTHER 258) ''x'' 11, tok (OTHER 59) [] 12],
        have_lookahead = True,
        lookahead_token = WITH, lookahead_yylval = ''with'', lookahead_yylloc = 6,
        yy_parsetree = []\<rparr>
     = Inr (tok WITH ''with'' 6,
            \<lparr>core_yy_extra = [tok (OTHER 59) [] 12],
             have_lookahead = True,
             lookahead_token = OTHER 258, lookahead_yylval = ''x'', lookahead_yylloc = 11,
             yy_parsetree = ([] :: unit list)\<rparr>)"
  by (simp add: base_yylex_def)

section \<open>Properties of the parse driver\<close>

text \<open>
  Claim C6.  When the grammar engine, run by \<open>raw_parser\<close> on the state it has
  initialised, raises an error (its own or one of the scanner's, which passes through
  it) or returns a result code other than zero, \<open>raw_parser\<close> returns the empty list,
  whatever tree the engine has stored by then, and returns normally, with
  \<open>in_parser_context\<close> reset.
\<close>

theorem raw_parser_failure:
  assumes "base_yyparse
             (parser_init (yyextra0\<lparr>core_yy_extra := scanner_init str, have_lookahead := False\<rparr>))
             (g\<lparr>parsetree := [], in_parser_context := True\<rparr>) = r"
    and "(\<exists>e g'. r = Inl (e, g'))
         \<or> (\<exists>yyresult yyextra' g'. r = Inr (yyresult, yyextra', g') \<and> yyresult \<noteq> 0)"
  shows "fst (raw_parser scanner_init parser_init base_yyparse yyextra0 str g) = []
         \<and> \<not> in_parser_context
               (snd (raw_parser scanner_init parser_init base_yyparse yyextra0 str g))"
  using assms by (auto simp: raw_parser_def)

text \<open>
  Two runs: an engine whose first request for a token meets a scanner error, and an
  engine that stores a tree and then reports failure.
\<close>

theorem raw_parser_failure_witness:
  "fst (raw_parser (\<lambda>str. str) (\<lambda>y. y\<lparr>yy_parsetree := []\<rparr>)
          (\<lambda>y g. case base_yylex (\<lambda>lval lloc s. Inl (ERROR ''unterminated quoted string'')) [] 0 y of
                    Inl e \<Rightarrow> Inl (e, g)
                  | Inr (t, y') \<Rightarrow> Inr (0, y'\<lparr>yy_parsetree := [''tree'']\<rparr>, g))
          \<lparr>core_yy_extra = [], have_lookahead = True, lookahead_token = OTHER 0,
           lookahead_yylval = ''junk'', lookahead_yylloc = 0, yy_parsetree = [''junk'']\<rparr>
          ''select 'abc'' (initial_globals True))
     = []
   \<and> fst (raw_parser (\<lambda>str. str) (\<lambda>y. y\<lparr>yy_parsetree := []\<rparr>)
          (\<lambda>y g. Inr (1, y\<lparr>yy_parsetree := [''partial tree'']\<rparr>, g))
          \<lparr>core_yy_extra = [], have_lookahead = True, lookahead_token = OTHER 0,
           lookahead_yylval = ''junk'', lookahead_yylloc = 0, yy_parsetree = [''junk'']\<rparr>
          ''select from'' (initial_globals True))
     = []"
  using raw_parser_failure [where
      base_yyparse =
        "\<lambda>y g. case base_yylex (\<lambda>lval lloc s. Inl (ERROR ''unterminated quoted string'')) [] 0 y of
                  Inl e \<Rightarrow> Inl (e, g)
                | Inr (t, y') \<Rightarrow> Inr (0, y'\<lparr>yy_parsetree := [''tree'']\<rparr>, g)"
      and parser_init = "\<lambda>y. y\<lparr>yy_parsetree := []\<rparr>"
      and scanner_init = "\<lambda>str. str"
      and ?yyextra0.0 = "\<lparr>core_yy_extra = [], have_lookahead = True, lookahead_token = OTHER 0,
           lookahead_yylval = ''junk'', lookahead_yylloc = 0, yy_parsetree = [''junk'']\<rparr>"
      and str = "''select 'abc''" and g = "initial_globals True"
      and r = "Inl (ERROR ''unterminated quoted string'',
                    (initial_globals True)\<lparr>parsetree := [], in_parser_context := True\<rparr>)"]
    raw_parser_failure [where
      base_yyparse = "\<lambda>y g. Inr (1, y\<lparr>yy_parsetree := [''partial tree'']\<rparr>, g)"
      and parser_init = "\<lambda>y. y\<lparr>yy_parsetree := []\<rparr>"
      and scanner_init = "\<lambda>str. str"
      and ?yyextra0.0 = "\<lparr>core_yy_extra = [], have_lookahead = True, lookahead_token = OTHER 0,
           lookahead_yylval = ''junk'', lookahead_yylloc = 0, yy_parsetree = [''junk'']\<rparr>"
      and str = "''select from''" and g = "initial_globals True"
      and r = "Inr (1,
                 \<lparr>core_yy_extra = ''select from'', have_lookahead = False, lookahead_token = OTHER 0,
                  lookahead_yylval = ''junk'', lookahead_yylloc = 0,
                  yy_parsetree = [''partial tree'']\<rparr>,
                 (initial_globals True)\<lparr>parsetree := [], in_parser_context := True\<rparr>)"]
  by (simp add: base_yylex_def)

end
